theory Spec2Isabelle
  imports Complex_Main "HOL-Library.Word"
begin

section \<open>The declarations of the KV cache API (llama.h)\<close>

text \<open>
  \<^verbatim>\<open>src/core/inference/llama/llama.h\<close> declares the inference API for the CGO bindings;
  it holds no function body. What the header fixes about an operation is its name, its
  return type and its parameter types, and that is what is embedded here: one
  \<open>c_decl\<close> per declaration of the section "LLAMA KV CACHE API", in the header's order.

  The C types that occur in that section. \<open>llama_pos\<close> and \<open>llama_seq_id\<close> are the
  header's typedefs of \<open>int32_t\<close>; they are kept apart because the claims speak of
  positions and sequence ids.
\<close>

datatype c_type =
    T_void
  | T_bool
  | T_int
  | T_int32
  | T_llama_pos
  | T_llama_seq_id
  | T_ptr string
  | T_const_ptr string

record c_decl =
  d_name :: string
  d_ret :: c_type
  d_params :: "c_type list"

text \<open>\<^verbatim>\<open>struct llama_kv_cache * llama_get_kv_self(struct llama_context * ctx);\<close>\<close>

definition llama_get_kv_self :: c_decl where
  "llama_get_kv_self =
     \<lparr>d_name = ''llama_get_kv_self'', d_ret = T_ptr ''llama_kv_cache'',
      d_params = [T_ptr ''llama_context'']\<rparr>"

text \<open>\<^verbatim>\<open>void llama_kv_cache_clear(struct llama_context * ctx);\<close> and its second name.\<close>

definition llama_kv_cache_clear :: c_decl where
  "llama_kv_cache_clear =
     \<lparr>d_name = ''llama_kv_cache_clear'', d_ret = T_void,
      d_params = [T_ptr ''llama_context'']\<rparr>"

definition llama_kv_self_clear :: c_decl where
  "llama_kv_self_clear =
     \<lparr>d_name = ''llama_kv_self_clear'', d_ret = T_void,
      d_params = [T_ptr ''llama_context'']\<rparr>"

text \<open>\<^verbatim>\<open>bool llama_kv_cache_seq_rm(struct llama_context * ctx, llama_seq_id seq_id,
  llama_pos p0, llama_pos p1);\<close> and its second name.\<close>

definition llama_kv_cache_seq_rm :: c_decl where
  "llama_kv_cache_seq_rm =
     \<lparr>d_name = ''llama_kv_cache_seq_rm'', d_ret = T_bool,
      d_params = [T_ptr ''llama_context'', T_llama_seq_id, T_llama_pos, T_llama_pos]\<rparr>"

definition llama_kv_self_seq_rm :: c_decl where
  "llama_kv_self_seq_rm =
     \<lparr>d_name = ''llama_kv_self_seq_rm'', d_ret = T_bool,
      d_params = [T_ptr ''llama_context'', T_llama_seq_id, T_llama_pos, T_llama_pos]\<rparr>"

text \<open>\<^verbatim>\<open>void llama_kv_cache_seq_cp(struct llama_context * ctx, llama_seq_id seq_id_src,
  llama_seq_id seq_id_dst, llama_pos p0, llama_pos p1);\<close> and its second name.\<close>

definition llama_kv_cache_seq_cp :: c_decl where
  "llama_kv_cache_seq_cp =
     \<lparr>d_name = ''llama_kv_cache_seq_cp'', d_ret = T_void,
      d_params = [T_ptr ''llama_context'', T_llama_seq_id, T_llama_seq_id,
                  T_llama_pos, T_llama_pos]\<rparr>"

definition llama_kv_self_seq_cp :: c_decl where
  "llama_kv_self_seq_cp =
     \<lparr>d_name = ''llama_kv_self_seq_cp'', d_ret = T_void,
      d_params = [T_ptr ''llama_context'', T_llama_seq_id, T_llama_seq_id,
                  T_llama_pos, T_llama_pos]\<rparr>"

text \<open>\<^verbatim>\<open>void llama_kv_cache_seq_keep(struct llama_context * ctx, llama_seq_id seq_id);\<close>
  and its second name.\<close>

definition llama_kv_cache_seq_keep :: c_decl where
  "llama_kv_cache_seq_keep =
     \<lparr>d_name = ''llama_kv_cache_seq_keep'', d_ret = T_void,
      d_params = [T_ptr ''llama_context'', T_llama_seq_id]\<rparr>"

definition llama_kv_self_seq_keep :: c_decl where
  "llama_kv_self_seq_keep =
     \<lparr>d_name = ''llama_kv_self_seq_keep'', d_ret = T_void,
      d_params = [T_ptr ''llama_context'', T_llama_seq_id]\<rparr>"

text \<open>\<^verbatim>\<open>void llama_kv_cache_seq_add(struct llama_context * ctx, llama_seq_id seq_id,
  llama_pos p0, llama_pos p1, llama_pos delta);\<close> and its second name.\<close>

definition llama_kv_cache_seq_add :: c_decl where
  "llama_kv_cache_seq_add =
     \<lparr>d_name = ''llama_kv_cache_seq_add'', d_ret = T_void,
      d_params = [T_ptr ''llama_context'', T_llama_seq_id, T_llama_pos, T_llama_pos,
                  T_llama_pos]\<rparr>"

definition llama_kv_self_seq_add :: c_decl where
  "llama_kv_self_seq_add =
     \<lparr>d_name = ''llama_kv_self_seq_add'', d_ret = T_void,
      d_params = [T_ptr ''llama_context'', T_llama_seq_id, T_llama_pos, T_llama_pos,
                  T_llama_pos]\<rparr>"

text \<open>\<^verbatim>\<open>void llama_kv_cache_seq_div(struct llama_context * ctx, llama_seq_id seq_id,
  llama_pos p0, llama_pos p1, int d);\<close> and its second name.\<close>

definition llama_kv_cache_seq_div :: c_decl where
  "llama_kv_cache_seq_div =
     \<lparr>d_name = ''llama_kv_cache_seq_div'', d_ret = T_void,
      d_params = [T_ptr ''llama_context'', T_llama_seq_id, T_llama_pos, T_llama_pos,
                  T_int]\<rparr>"

definition llama_kv_self_seq_div :: c_decl where
  "llama_kv_self_seq_div =
     \<lparr>d_name = ''llama_kv_self_seq_div'', d_ret = T_void,
      d_params = [T_ptr ''llama_context'', T_llama_seq_id, T_llama_pos, T_llama_pos,
                  T_int]\<rparr>"

text \<open>\<^verbatim>\<open>llama_pos llama_kv_cache_seq_pos_max(struct llama_context * ctx,
  llama_seq_id seq_id);\<close> and its second name.\<close>

definition llama_kv_cache_seq_pos_max :: c_decl where
  "llama_kv_cache_seq_pos_max =
     \<lparr>d_name = ''llama_kv_cache_seq_pos_max'', d_ret = T_llama_pos,
      d_params = [T_ptr ''llama_context'', T_llama_seq_id]\<rparr>"

definition llama_kv_self_seq_pos_max :: c_decl where
  "llama_kv_self_seq_pos_max =
     \<lparr>d_name = ''llama_kv_self_seq_pos_max'', d_ret = T_llama_pos,
      d_params = [T_ptr ''llama_context'', T_llama_seq_id]\<rparr>"

text \<open>\<^verbatim>\<open>void llama_kv_cache_defrag(struct llama_context * ctx);\<close> and its second name.\<close>

definition llama_kv_cache_defrag :: c_decl where
  "llama_kv_cache_defrag =
     \<lparr>d_name = ''llama_kv_cache_defrag'', d_ret = T_void,
      d_params = [T_ptr ''llama_context'']\<rparr>"

definition llama_kv_self_defrag :: c_decl where
  "llama_kv_self_defrag =
     \<lparr>d_name = ''llama_kv_self_defrag'', d_ret = T_void,
      d_params = [T_ptr ''llama_context'']\<rparr>"

text \<open>\<^verbatim>\<open>void llama_kv_cache_update(struct llama_context * ctx);\<close> and its second name.\<close>

definition llama_kv_cache_update :: c_decl where
  "llama_kv_cache_update =
     \<lparr>d_name = ''llama_kv_cache_update'', d_ret = T_void,
      d_params = [T_ptr ''llama_context'']\<rparr>"

definition llama_kv_self_update :: c_decl where
  "llama_kv_self_update =
     \<lparr>d_name = ''llama_kv_self_update'', d_ret = T_void,
      d_params = [T_ptr ''llama_context'']\<rparr>"

text \<open>\<^verbatim>\<open>bool llama_kv_cache_can_shift(struct llama_context * ctx);\<close> and its second name.\<close>

definition llama_kv_cache_can_shift :: c_decl where
  "llama_kv_cache_can_shift =
     \<lparr>d_name = ''llama_kv_cache_can_shift'', d_ret = T_bool,
      d_params = [T_ptr ''llama_context'']\<rparr>"

definition llama_kv_self_can_shift :: c_decl where
  "llama_kv_self_can_shift =
     \<lparr>d_name = ''llama_kv_self_can_shift'', d_ret = T_bool,
      d_params = [T_ptr ''llama_context'']\<rparr>"

text \<open>The four counters, each \<^verbatim>\<open>int32_t f(const struct llama_context * ctx);\<close>.\<close>

definition llama_get_kv_cache_token_count :: c_decl where
  "llama_get_kv_cache_token_count =
     \<lparr>d_name = ''llama_get_kv_cache_token_count'', d_ret = T_int32,
      d_params = [T_const_ptr ''llama_context'']\<rparr>"

definition llama_get_kv_cache_used_cells :: c_decl where
  "llama_get_kv_cache_used_cells =
     \<lparr>d_name = ''llama_get_kv_cache_used_cells'', d_ret = T_int32,
      d_params = [T_const_ptr ''llama_context'']\<rparr>"

definition llama_kv_self_n_tokens :: c_decl where
  "llama_kv_self_n_tokens =
     \<lparr>d_name = ''llama_kv_self_n_tokens'', d_ret = T_int32,
      d_params = [T_const_ptr ''llama_context'']\<rparr>"

definition llama_kv_self_used_cells :: c_decl where
  "llama_kv_self_used_cells =
     \<lparr>d_name = ''llama_kv_self_used_cells'', d_ret = T_int32,
      d_params = [T_const_ptr ''llama_context'']\<rparr>"

text \<open>The section as a whole, in the order of the header (lines 379 to 413).\<close>

definition kv_cache_api :: "c_decl list" where
  "kv_cache_api =
     [llama_get_kv_self,
      llama_kv_cache_clear, llama_kv_self_clear,
      llama_kv_cache_seq_rm, llama_kv_self_seq_rm,
      llama_kv_cache_seq_cp, llama_kv_self_seq_cp,
      llama_kv_cache_seq_keep, llama_kv_self_seq_keep,
      llama_kv_cache_seq_add, llama_kv_self_seq_add,
      llama_kv_cache_seq_div, llama_kv_self_seq_div,
      llama_kv_cache_seq_pos_max, llama_kv_self_seq_pos_max,
      llama_kv_cache_defrag, llama_kv_self_defrag,
      llama_kv_cache_update, llama_kv_self_update,
      llama_kv_cache_can_shift, llama_kv_self_can_shift,
      llama_get_kv_cache_token_count, llama_get_kv_cache_used_cells,
      llama_kv_self_n_tokens, llama_kv_self_used_cells]"

subsection \<open>What a caller reads off a declaration\<close>

text \<open>
  An operation is per-sequence when it takes a \<open>llama_seq_id\<close>; it returns a result when
  its return type is not \<open>void\<close>.
\<close>

definition per_sequence :: "c_decl \<Rightarrow> bool" where
  "per_sequence d = (T_llama_seq_id \<in> set (d_params d))"

definition returns_result :: "c_decl \<Rightarrow> bool" where
  "returns_result d = (d_ret d \<noteq> T_void)"

text \<open>
  The values a C function can hand back, and which of them a return type admits. A
  \<open>void\<close> function hands back nothing, written \<open>V_void\<close>; the three 32-bit integer
  types share one representation.
\<close>

datatype c_value =
    V_void
  | V_bool bool
  | V_int32 "32 word"
  | V_ptr nat

fun has_c_type :: "c_value \<Rightarrow> c_type \<Rightarrow> bool" where
  "has_c_type V_void T_void = True"
| "has_c_type (V_bool b) T_bool = True"
| "has_c_type (V_int32 n) T_int = True"
| "has_c_type (V_int32 n) T_int32 = True"
| "has_c_type (V_int32 n) T_llama_pos = True"
| "has_c_type (V_int32 n) T_llama_seq_id = True"
| "has_c_type (V_ptr a) (T_ptr s) = True"
| "has_c_type (V_ptr a) (T_const_ptr s) = True"
| "has_c_type v t = False"

text \<open>
  The operations of the cache manager by the names the specification gives them, each
  with the two names the header declares it under.
\<close>

definition remove_ops :: "c_decl list" where
  "remove_ops = [llama_kv_cache_seq_rm, llama_kv_self_seq_rm]"

definition max_position_ops :: "c_decl list" where
  "max_position_ops = [llama_kv_cache_seq_pos_max, llama_kv_self_seq_pos_max]"

definition copy_ops :: "c_decl list" where
  "copy_ops = [llama_kv_cache_seq_cp, llama_kv_self_seq_cp]"

definition keep_ops :: "c_decl list" where
  "keep_ops = [llama_kv_cache_seq_keep, llama_kv_self_seq_keep]"

definition shift_ops :: "c_decl list" where
  "shift_ops = [llama_kv_cache_seq_add, llama_kv_self_seq_add]"

definition scale_positions_ops :: "c_decl list" where
  "scale_positions_ops = [llama_kv_cache_seq_div, llama_kv_self_seq_div]"

definition defragment_ops :: "c_decl list" where
  "defragment_ops = [llama_kv_cache_defrag, llama_kv_self_defrag]"

section \<open>The sampling pipeline\<close>

text \<open>
  \<^verbatim>\<open>struct llama_token_data { llama_token id; float logit; float p; };\<close> and
  \<^verbatim>\<open>struct llama_token_data_array { llama_token_data * data; size_t size;
  int64_t selected; bool sorted; };\<close> of llama.h. The array and its \<open>size\<close> are one list;
  \<open>selected\<close> is an index into it, \<open>-1\<close> while nothing is selected. Logits and
  probabilities are real numbers: the stages below compare logits and never round them.
\<close>

type_synonym llama_token = int

record llama_token_data =
  id_tok :: llama_token
  logit :: real
  p :: real

record llama_token_data_array =
  data :: "llama_token_data list"
  selected :: int
  sorted_arr :: bool

text \<open>
  The two samplers the scenario uses, by the arguments of their constructors
  \<^verbatim>\<open>llama_sampler_init_greedy(void)\<close> and \<^verbatim>\<open>llama_sampler_init_top_k(int32_t k)\<close>.
\<close>

datatype llama_sampler =
    Greedy
  | Top_k int

text \<open>
  Modelled from the spec: the body of \<^verbatim>\<open>llama_sampler_chain_add\<close>, missing from src/.
  "The chain is an ordered list of stages": adding a stage appends it.
\<close>

definition llama_sampler_chain_add :: "llama_sampler list \<Rightarrow> llama_sampler \<Rightarrow> llama_sampler list" where
  "llama_sampler_chain_add chain smpl = chain @ [smpl]"

text \<open>
  Modelled from the spec: the rule that orders two candidates of equal weight. The header
  declares the samplers and holds none of their bodies; the specification asks for "a
  documented tie-break (e.g. lowest index wins)" and fixes no rule, so the rule is a
  parameter, with the specification's example and its mirror image as the two values.
\<close>

datatype tie_break =
    Lowest_index
  | Highest_index

text \<open>
  Modelled from the spec: what each tie-break rule says of two token indices, \<open>i\<close> wins
  over \<open>j\<close>. No sampler body is in src/.
\<close>

fun wins :: "tie_break \<Rightarrow> llama_token \<Rightarrow> llama_token \<Rightarrow> bool" where
  "wins Lowest_index i j = (i < j)"
| "wins Highest_index i j = (j < i)"

text \<open>
  Modelled from the spec: the order of the top-k stage, whose body is missing from src/.
  "Highest-logit" first: a candidate comes before another when its logit is higher, or
  equal and the tie-break rule prefers its token.
\<close>

definition logit_before :: "tie_break \<Rightarrow> llama_token_data \<Rightarrow> llama_token_data \<Rightarrow> bool" where
  "logit_before tb c d =
     (logit d < logit c \<or> (logit c = logit d \<and> wins tb (id_tok c) (id_tok d)))"

text \<open>
  Modelled from the spec: the sort of the top-k stage, missing from src/: an insertion
  sort into the order \<open>logit_before\<close>.
\<close>

fun insert_by_logit ::
  "tie_break \<Rightarrow> llama_token_data \<Rightarrow> llama_token_data list \<Rightarrow> llama_token_data list" where
  "insert_by_logit tb c [] = [c]"
| "insert_by_logit tb c (d # ds) =
     (if logit_before tb c d then c # d # ds else d # insert_by_logit tb c ds)"

text \<open>
  Modelled from the spec: the sort of the top-k stage, missing from src/: every candidate
  is inserted in turn.
\<close>

fun sort_by_logit :: "tie_break \<Rightarrow> llama_token_data list \<Rightarrow> llama_token_data list" where
  "sort_by_logit tb [] = []"
| "sort_by_logit tb (c # cs) = insert_by_logit tb c (sort_by_logit tb cs)"

text \<open>
  Modelled from the spec: the body of the top-k stage, missing from src/. "top_k(k): retain
  only the k highest-logit candidates": the candidates are put in the order above and the
  first \<open>k\<close> are kept; the array is left in that order and marked sorted.
\<close>

definition top_k :: "tie_break \<Rightarrow> int \<Rightarrow> llama_token_data_array \<Rightarrow> llama_token_data_array" where
  "top_k tb k cur_p =
     cur_p\<lparr>data := take (nat k) (sort_by_logit tb (data cur_p)), sorted_arr := True\<rparr>"

text \<open>
  Modelled from the spec: the derived probability of a candidate, missing from src/. The
  specification's token distribution holds "(token id, raw logit, derived probability)
  triples" and its stages re-normalize over the candidates that remain: the probability
  of a candidate is its share of the exponentials of the remaining logits.
\<close>

definition softmax :: "llama_token_data_array \<Rightarrow> llama_token_data_array" where
  "softmax cur_p =
     cur_p\<lparr>data :=
       map (\<lambda>c. c\<lparr>p := exp (logit c) / (\<Sum>d\<leftarrow>data cur_p. exp (logit d))\<rparr>) (data cur_p)\<rparr>"

text \<open>
  Modelled from the spec: the order of the greedy selection, whose body is missing from
  src/. "Max-probability": a candidate comes before another when its probability is
  higher, or equal and the tie-break rule prefers its token.
\<close>

definition prob_before :: "tie_break \<Rightarrow> llama_token_data \<Rightarrow> llama_token_data \<Rightarrow> bool" where
  "prob_before tb c d = (p d < p c \<or> (p c = p d \<and> wins tb (id_tok c) (id_tok d)))"

text \<open>
  Modelled from the spec: the scan of the greedy selection, missing from src/: one pass
  over the candidates from index \<open>i\<close> on that keeps the index \<open>best_i\<close> of the best
  candidate so far, a later candidate replacing it when it comes before it.
\<close>

fun argmax_from ::
  "tie_break \<Rightarrow> nat \<Rightarrow> nat \<Rightarrow> llama_token_data \<Rightarrow> llama_token_data list \<Rightarrow> nat" where
  "argmax_from tb i best_i best [] = best_i"
| "argmax_from tb i best_i best (c # cs) =
     (if prob_before tb c best then argmax_from tb (Suc i) i c cs
      else argmax_from tb (Suc i) best_i best cs)"

text \<open>
  Modelled from the spec: the body of the greedy selection, missing from src/. "greedy:
  pick the max-probability remaining candidate": the probabilities are derived over the
  remaining candidates and the index of the best one is stored in \<open>selected\<close>; with no
  candidate left nothing is selected.
\<close>

definition greedy :: "tie_break \<Rightarrow> llama_token_data_array \<Rightarrow> llama_token_data_array" where
  "greedy tb cur_p =
     (let cur = softmax cur_p in
      case data cur of
        [] \<Rightarrow> cur\<lparr>selected := -1\<rparr>
      | c # cs \<Rightarrow> cur\<lparr>selected := int (argmax_from tb 1 0 c cs)\<rparr>)"

text \<open>
  Modelled from the spec: the body of \<^verbatim>\<open>llama_sampler_apply\<close> for one stage, missing
  from src/: each stage kind has the effect given above.
\<close>

fun llama_sampler_apply ::
  "tie_break \<Rightarrow> llama_sampler \<Rightarrow> llama_token_data_array \<Rightarrow> llama_token_data_array" where
  "llama_sampler_apply tb Greedy cur_p = greedy tb cur_p"
| "llama_sampler_apply tb (Top_k k) cur_p = top_k tb k cur_p"

text \<open>
  Modelled from the spec: the body of \<^verbatim>\<open>llama_sampler_apply\<close> for a chain, missing
  from src/. "apply(chain, distribution) runs each stage in list order, each stage reading
  and rewriting the candidate set".
\<close>

definition llama_sampler_chain_apply ::
  "tie_break \<Rightarrow> llama_sampler list \<Rightarrow> llama_token_data_array \<Rightarrow> llama_token_data_array" where
  "llama_sampler_chain_apply tb chain cur_p = fold (llama_sampler_apply tb) chain cur_p"

text \<open>
  Modelled from the spec: the token distribution of a decode step, built by code missing
  from src/. "An ephemeral array of (token id, raw logit, derived probability) triples":
  one candidate per vocabulary index, in index order, with its raw logit; no probability
  is derived and nothing is selected yet.
\<close>

definition token_distribution :: "real list \<Rightarrow> llama_token_data_array" where
  "token_distribution logits =
     \<lparr>data = map (\<lambda>(i, l). \<lparr>id_tok = int i, logit = l, p = 0\<rparr>) (enumerate 0 logits),
      selected = -1, sorted_arr = False\<rparr>"

text \<open>
  Modelled from the spec: the body of \<^verbatim>\<open>llama_sampler_sample\<close>, missing from src/:
  the chain is applied to the distribution of the logits and the chosen token is the id
  of the selected candidate; there is none when no candidate is selected.
\<close>

definition llama_sampler_sample :: "tie_break \<Rightarrow> llama_sampler list \<Rightarrow> real list \<Rightarrow> llama_token option" where
  "llama_sampler_sample tb chain logits =
     (let cur = llama_sampler_chain_apply tb chain (token_distribution logits) in
      if 0 \<le> selected cur \<and> nat (selected cur) < length (data cur)
      then Some (id_tok (data cur ! nat (selected cur)))
      else None)"

text \<open>
  The scenario of the specification: a vocabulary of five tokens with these logits, and
  the chain \<open>top_k(2)\<close>, \<open>greedy\<close>.
\<close>

definition scenario_logits :: "real list" where
  "scenario_logits = [1, 3, 1 / 2, 3, -1]"

definition scenario_chain :: "llama_sampler list" where
  "scenario_chain = llama_sampler_chain_add (llama_sampler_chain_add [] (Top_k 2)) Greedy"

section \<open>Return types of the cache operations\<close>

lemmas kv_decl_defs =
  llama_get_kv_self_def
  llama_kv_cache_clear_def llama_kv_self_clear_def
  llama_kv_cache_seq_rm_def llama_kv_self_seq_rm_def
  llama_kv_cache_seq_cp_def llama_kv_self_seq_cp_def
  llama_kv_cache_seq_keep_def llama_kv_self_seq_keep_def
  llama_kv_cache_seq_add_def llama_kv_self_seq_add_def
  llama_kv_cache_seq_div_def llama_kv_self_seq_div_def
  llama_kv_cache_seq_pos_max_def llama_kv_self_seq_pos_max_def
  llama_kv_cache_defrag_def llama_kv_self_defrag_def
  llama_kv_cache_update_def llama_kv_self_update_def
  llama_kv_cache_can_shift_def llama_kv_self_can_shift_def
  llama_get_kv_cache_token_count_def llama_get_kv_cache_used_cells_def
  llama_kv_self_n_tokens_def llama_kv_self_used_cells_def

lemma void_value_unique:
  "has_c_type v T_void \<Longrightarrow> has_c_type w T_void \<Longrightarrow> v = w"
  by (cases v; cases w) simp_all

lemma per_sequence_results:
  "filter (\<lambda>d. per_sequence d \<and> returns_result d) kv_cache_api
     = remove_ops @ max_position_ops"
  by (simp add: kv_cache_api_def per_sequence_def returns_result_def remove_ops_def
      max_position_ops_def kv_decl_defs)

text \<open>
  Claim C10, as written: among the per-sequence cache operations only remove returns a
  result. It fails at the query \<open>max_position\<close>: \<^verbatim>\<open>llama_kv_cache_seq_pos_max\<close> is
  declared in the section, takes a sequence id, returns a \<open>llama_pos\<close> and is not remove.
\<close>

theorem seq_pos_max_returns_result:
  "llama_kv_cache_seq_pos_max \<in> set kv_cache_api
   \<and> per_sequence llama_kv_cache_seq_pos_max
   \<and> returns_result llama_kv_cache_seq_pos_max
   \<and> d_ret llama_kv_cache_seq_pos_max = T_llama_pos
   \<and> llama_kv_cache_seq_pos_max \<notin> set remove_ops"
  by (simp add: kv_cache_api_def per_sequence_def returns_result_def remove_ops_def
      kv_decl_defs)

text \<open>
  Claim C10, amended: among the per-sequence cache operations the ones that return a
  result are remove, which returns a boolean, and the query max_position, which returns
  a position. Copy, keep, shift, scale_positions and defragment are declared in the
  section and all return \<open>void\<close>, under both of their names; a \<open>void\<close> return type
  admits one value only, so two calls of such an operation never differ in what they
  return and no failure or rejection reaches the caller through the return value.
\<close>

theorem kv_cache_return_types:
  "filter (\<lambda>d. per_sequence d \<and> returns_result d) kv_cache_api
     = remove_ops @ max_position_ops
   \<and> (\<forall>d \<in> set remove_ops. d_ret d = T_bool)
   \<and> (\<forall>d \<in> set max_position_ops. d_ret d = T_llama_pos)
   \<and> (\<forall>d \<in> set (copy_ops @ keep_ops @ shift_ops @ scale_positions_ops @ defragment_ops).
        d \<in> set kv_cache_api \<and> d_ret d = T_void
        \<and> (\<forall>v w. has_c_type v (d_ret d) \<longrightarrow> has_c_type w (d_ret d) \<longrightarrow> v = w))"
proof (intro conjI ballI)
  show "filter (\<lambda>d. per_sequence d \<and> returns_result d) kv_cache_api
          = remove_ops @ max_position_ops"
    by (rule per_sequence_results)
next
  fix d assume "d \<in> set remove_ops"
  then show "d_ret d = T_bool"
    by (auto simp: remove_ops_def kv_decl_defs)
next
  fix d assume "d \<in> set max_position_ops"
  then show "d_ret d = T_llama_pos"
    by (auto simp: max_position_ops_def kv_decl_defs)
next
  fix d
  assume d: "d \<in> set (copy_ops @ keep_ops @ shift_ops @ scale_positions_ops @ defragment_ops)"
  then show "d \<in> set kv_cache_api"
    by (auto simp: copy_ops_def keep_ops_def shift_ops_def scale_positions_ops_def
        defragment_ops_def kv_cache_api_def)
  from d show void: "d_ret d = T_void"
    by (auto simp: copy_ops_def keep_ops_def shift_ops_def scale_positions_ops_def
        defragment_ops_def kv_decl_defs)
  show "\<forall>v w. has_c_type v (d_ret d) \<longrightarrow> has_c_type w (d_ret d) \<longrightarrow> v = w"
    using void void_value_unique by auto
qed

theorem kv_cache_return_types_witness:
  "llama_kv_cache_seq_rm \<in> set remove_ops
   \<and> d_ret llama_kv_cache_seq_rm = T_bool
   \<and> llama_kv_cache_seq_cp \<in> set (copy_ops @ keep_ops @ shift_ops @ scale_positions_ops @ defragment_ops)
   \<and> llama_kv_cache_seq_cp \<in> set kv_cache_api
   \<and> d_ret llama_kv_cache_seq_cp = T_void
   \<and> has_c_type V_void (d_ret llama_kv_cache_seq_cp)
   \<and> \<not> has_c_type (V_bool False) (d_ret llama_kv_cache_seq_cp)"
proof -
  have rm: "llama_kv_cache_seq_rm \<in> set remove_ops"
    by (simp add: remove_ops_def)
  have cp: "llama_kv_cache_seq_cp
      \<in> set (copy_ops @ keep_ops @ shift_ops @ scale_positions_ops @ defragment_ops)"
    by (simp add: copy_ops_def)
  from kv_cache_return_types rm have "d_ret llama_kv_cache_seq_rm = T_bool"
    by blast
  moreover from kv_cache_return_types cp
  have "llama_kv_cache_seq_cp \<in> set kv_cache_api \<and> d_ret llama_kv_cache_seq_cp = T_void"
    by blast
  ultimately show ?thesis
    using rm cp by simp
qed

section \<open>The tie-break scenario\<close>

lemma scenario_distribution:
  "data (token_distribution scenario_logits) =
     [\<lparr>id_tok = 0, logit = 1, p = 0\<rparr>, \<lparr>id_tok = 1, logit = 3, p = 0\<rparr>,
      \<lparr>id_tok = 2, logit = 1 / 2, p = 0\<rparr>, \<lparr>id_tok = 3, logit = 3, p = 0\<rparr>,
      \<lparr>id_tok = 4, logit = -1, p = 0\<rparr>]"
  by (simp add: token_distribution_def scenario_logits_def enumerate_eq_zip upt_rec)

lemma scenario_top_k_lowest:
  "data (top_k Lowest_index 2 (token_distribution scenario_logits)) =
     [\<lparr>id_tok = 1, logit = 3, p = 0\<rparr>, \<lparr>id_tok = 3, logit = 3, p = 0\<rparr>]"
  by (simp add: top_k_def scenario_distribution logit_before_def numeral_2_eq_2)

lemma scenario_top_k_highest:
  "data (top_k Highest_index 2 (token_distribution scenario_logits)) =
     [\<lparr>id_tok = 3, logit = 3, p = 0\<rparr>, \<lparr>id_tok = 1, logit = 3, p = 0\<rparr>]"
  by (simp add: top_k_def scenario_distribution logit_before_def numeral_2_eq_2)

lemma scenario_sample_lowest:
  "llama_sampler_sample Lowest_index scenario_chain scenario_logits = Some 1"
  by (simp add: llama_sampler_sample_def llama_sampler_chain_apply_def scenario_chain_def
      llama_sampler_chain_add_def greedy_def softmax_def prob_before_def Let_def
      scenario_top_k_lowest)

lemma scenario_sample_highest:
  "llama_sampler_sample Highest_index scenario_chain scenario_logits = Some 3"
  by (simp add: llama_sampler_sample_def llama_sampler_chain_apply_def scenario_chain_def
      llama_sampler_chain_add_def greedy_def softmax_def prob_before_def Let_def
      scenario_top_k_highest)

text \<open>
  Claim C7: on the logits \<open>[1.0, 3.0, 0.5, 3.0, -1.0]\<close>, \<open>top_k(2)\<close> keeps exactly the two
  tied candidates 1 and 3, and \<open>greedy\<close> then selects the one the tie-break rule names:
  token 1 when the lowest index wins, token 3 when the highest does. The selected token is
  a function of the rule, the chain and the logits alone (neither stage keeps state), so
  every application on this input returns the same token.
\<close>

theorem top_k_greedy_tie_break:
  "set (map id_tok (data (top_k tb 2 (token_distribution scenario_logits)))) = {1, 3}
   \<and> llama_sampler_sample tb scenario_chain scenario_logits
       = Some (case tb of Lowest_index \<Rightarrow> 1 | Highest_index \<Rightarrow> 3)
   \<and> llama_sampler_sample Lowest_index scenario_chain scenario_logits = Some 1"
proof (cases tb)
  case Lowest_index
  then show ?thesis
    using scenario_top_k_lowest scenario_sample_lowest by auto
next
  case Highest_index
  then show ?thesis
    using scenario_top_k_highest scenario_sample_highest scenario_sample_lowest by auto
qed

end
